theory Spec2Isabelle
  imports Main "HOL-Library.Sublist"
begin

section \<open>Python values, strings and errors\<close>

text \<open>
  The module \<^verbatim>\<open>questions.py\<close> computes a documentation URL from the environment when it
  is loaded, holds the list \<^verbatim>\<open>scope_files\<close>, and defines four functions that build
  prompts by f-string interpolation.

  A Python \<^verbatim>\<open>str\<close> is modelled as a \<open>string\<close>: the list of the bytes of its UTF-8
  encoding. Every character of the run counter, of the URLs and of the scope paths that
  the code handles is ASCII, one byte each; the three characters of the templates beyond
  ASCII are written as their UTF-8 bytes. UTF-8 is self-synchronising, so one text occurs
  inside another exactly when its bytes occur inside the bytes of the other.

  The exceptions the code can raise are values: \<open>ValueError\<close> is what \<^verbatim>\<open>int()\<close> raises
  on text that is no integer (the specification calls it InvalidInput), and
  \<open>ZeroDivisionError\<close> is what \<^verbatim>\<open>%\<close> raises on a zero divisor.
\<close>

datatype py_error = ValueError | ZeroDivisionError

text \<open>
  \<^verbatim>\<open>get_cyclic_index\<close> applies \<^verbatim>\<open>int()\<close> to its first argument, which the module passes
  as a \<^verbatim>\<open>str\<close> and which a caller may pass as an \<^verbatim>\<open>int\<close>.
\<close>

datatype py_value = PyInt int | PyStr string

subsection \<open>\<^verbatim>\<open>int()\<close> on text\<close>

text \<open>
  \<^verbatim>\<open>int(s)\<close> in base ten: blanks are skipped on both sides (tab, line feed, vertical
  tab, form feed, carriage return and space), one sign may follow, and then come decimal
  digits, where a single underscore may stand between two digits. Anything else raises
  \<^verbatim>\<open>ValueError\<close>. Leading zeros are accepted. Python also accepts the decimal digits and
  the blanks of Unicode beyond ASCII; a byte beyond ASCII is no digit and no blank here, so
  the model covers the ASCII text that a run counter is. The interpreter's optional limit
  on the number of digits (4300 by default) is not modelled.
\<close>

definition is_space :: "char \<Rightarrow> bool" where
  "is_space c = (c \<in> set [CHR 0x09, CHR 0x0A, CHR 0x0B, CHR 0x0C, CHR 0x0D, CHR 0x20])"

definition is_digit :: "char \<Rightarrow> bool" where
  "is_digit c = (48 \<le> (of_char c :: nat) \<and> (of_char c :: nat) \<le> 57)"

definition digit_val :: "char \<Rightarrow> int" where
  "digit_val c = int (of_char c) - 48"

fun parse_digits :: "int \<Rightarrow> string \<Rightarrow> int option" where
  "parse_digits acc [] = Some acc"
| "parse_digits acc (c # cs) =
     (if is_digit c then parse_digits (acc * 10 + digit_val c) cs
      else if c = CHR ''_'' then
        (case cs of
           [] \<Rightarrow> None
         | d # ds \<Rightarrow> if is_digit d then parse_digits (acc * 10 + digit_val d) ds else None)
      else None)"

definition parse_unsigned :: "string \<Rightarrow> int option" where
  "parse_unsigned s =
     (case s of
        [] \<Rightarrow> None
      | c # cs \<Rightarrow> if is_digit c then parse_digits (digit_val c) cs else None)"

definition strip :: "string \<Rightarrow> string" where
  "strip s = rev (dropWhile is_space (rev (dropWhile is_space s)))"

definition split_sign :: "string \<Rightarrow> int \<times> string" where
  "split_sign s =
     (case s of
        [] \<Rightarrow> (1, s)
      | c # cs \<Rightarrow> if c = CHR ''+'' then (1, cs) else if c = CHR ''-'' then (- 1, cs) else (1, s))"

definition int_of_str :: "string \<Rightarrow> py_error + int" where
  "int_of_str s =
     (case split_sign (strip s) of
        (sign, body) \<Rightarrow>
          (case parse_unsigned body of
             None \<Rightarrow> Inl ValueError
           | Some n \<Rightarrow> Inr (sign * n)))"

fun py_int :: "py_value \<Rightarrow> py_error + int" where
  "py_int (PyInt i) = Inr i"
| "py_int (PyStr s) = int_of_str s"

subsection \<open>The format \<^verbatim>\<open>03d\<close>\<close>

text \<open>
  \<^verbatim>\<open>f"{run_index:03d}"\<close> writes an integer in decimal and fills it with zeros on the left,
  after the sign, up to a width of three characters.
\<close>

definition digit_char :: "nat \<Rightarrow> char" where
  "digit_char d = char_of (48 + d)"

fun str_nat :: "nat \<Rightarrow> string" where
  "str_nat n = (if n < 10 then [digit_char n] else str_nat (n div 10) @ [digit_char (n mod 10)])"

declare str_nat.simps [simp del]

definition zfill :: "nat \<Rightarrow> string \<Rightarrow> string" where
  "zfill w s = replicate (w - length s) (CHR ''0'') @ s"

definition format_03d :: "int \<Rightarrow> string" where
  "format_03d i =
     (if i < 0 then CHR ''-'' # zfill 2 (str_nat (nat (- i))) else zfill 3 (str_nat (nat i)))"

section \<open>The cyclic index and the base URL\<close>

definition MAX_REPO :: int where
  "MAX_REPO = 30"

definition SOURCE_REPO :: string where
  "SOURCE_REPO = ''Sui-Volo/volo-smart-contracts''"

definition REPO_NAME :: string where
  "REPO_NAME = ''volo-smart-contracts''"

text \<open>
  \<^verbatim>\<open>run_number = os.environ.get('GITHUB_RUN_NUMBER', '0')\<close>: the value of the variable, or
  the text \<^verbatim>\<open>'0'\<close> when the environment has none.
\<close>

definition run_number_of_env :: "string option \<Rightarrow> string" where
  "run_number_of_env v = (case v of None \<Rightarrow> ''0'' | Some s \<Rightarrow> s)"

text \<open>
  \<^verbatim>\<open>return (int(run_number) - 1) % max_index + 1\<close>. Python's \<^verbatim>\<open>%\<close> on integers is the
  remainder of floor division, as \<open>mod\<close> on \<open>int\<close> is, and raises on a zero divisor, where
  \<open>mod\<close> would return its first argument. The source gives \<^verbatim>\<open>max_index\<close> the default
  100; its only call passes \<^verbatim>\<open>MAX_REPO\<close>.
\<close>

definition get_cyclic_index :: "py_value \<Rightarrow> int \<Rightarrow> py_error + int" where
  "get_cyclic_index run_number max_index =
     (case py_int run_number of
        Inl e \<Rightarrow> Inl e
      | Inr r \<Rightarrow> if max_index = 0 then Inl ZeroDivisionError else Inr ((r - 1) mod max_index + 1))"

text \<open>
  The module-level \<^verbatim>\<open>if run_number == "0": ... else: ...\<close> that binds \<^verbatim>\<open>BASE_URL\<close>, as a
  function of the run counter read from the environment. An exception of
  \<^verbatim>\<open>get_cyclic_index\<close> is not caught: it leaves the module unloaded.
\<close>

definition BASE_URL :: "string \<Rightarrow> py_error + string" where
  "BASE_URL run_number =
     (if run_number = ''0'' then Inr (''https://deepwiki.com/'' @ SOURCE_REPO)
      else
        (case get_cyclic_index (PyStr run_number) MAX_REPO of
           Inl e \<Rightarrow> Inl e
         | Inr run_index \<Rightarrow>
             Inr (''https://deepwiki.com/grass-dev-pa/'' @ REPO_NAME @ ''-'' @ format_03d run_index)))"


section \<open>The scope registry\<close>

text \<open>
  The module-level list \<^verbatim>\<open>scope_files\<close>, entry by entry and in the order of the source:
  242 paths, the same 121 written twice.
\<close>

definition scope_files :: "string list" where
  "scope_files =
    [''liquid_staking/sources/stake_pool.move'',
     ''liquid_staking/sources/manage.move'',
     ''liquid_staking/sources/fee_config.move'',
     ''liquid_staking/sources/volo_v1/native_pool.move'',
     ''liquid_staking/sources/volo_v1/validator_set.move'',
     ''liquid_staking/sources/volo_v1/ownership.move'',
     ''liquid_staking/sources/volo_v1/unstake_ticket.move'',
     ''liquid_staking/sources/volo_v1/math.move'',
     ''liquid_staking/sources/cert.move'',
     ''liquid_staking/sources/validator_pool.move'',
     ''liquid_staking/sources/migration/migrate.move'',
     ''volo-vault/sources/utils.move'',
     ''volo-vault/sources/volo_vault.move'',
     ''volo-vault/sources/manage.move'',
     ''volo-vault/sources/operation.move'',
     ''volo-vault/sources/user_entry.move'',
     ''volo-vault/sources/vault_receipt_info.move'',
     ''volo-vault/sources/receipt.move'',
     ''volo-vault/sources/requests/withdraw_request.move'',
     ''volo-vault/sources/requests/deposit_request.move'',
     ''volo-vault/sources/adaptors/momentum.adaptor.move'',
     ''volo-vault/sources/adaptors/cetus_adaptor.move'',
     ''volo-vault/sources/adaptors/suilend_adaptor.move'',
     ''volo-vault/sources/adaptors/receipt_adaptor.move'',
     ''volo-vault/sources/adaptors/navi_adaptor.move'',
     ''volo-vault/sources/reward_manager.move'',
     ''volo-vault/sources/oracle.move'',
     ''volo-vault/health-limiter/sources/adaptors/navi_limiter.move'',
     ''volo-vault/local_dependencies/switchboard_sui/on_demand/sources/utils/decimal.move'',
     ''volo-vault/local_dependencies/switchboard_sui/on_demand/sources/utils/hash.move'',
     ''volo-vault/local_dependencies/switchboard_sui/on_demand/sources/schemas/queue.move'',
     ''volo-vault/local_dependencies/switchboard_sui/on_demand/sources/schemas/aggregator.move'',
     ''volo-vault/local_dependencies/switchboard_sui/on_demand/sources/schemas/oracle.move'',
     ''volo-vault/local_dependencies/switchboard_sui/on_demand/sources/actions/aggregator/aggregator_set_authority_action.move'',
     ''volo-vault/local_dependencies/switchboard_sui/on_demand/sources/actions/aggregator/aggregator_init_action.move'',
     ''volo-vault/local_dependencies/switchboard_sui/on_demand/sources/actions/aggregator/aggregator_set_configs_action.move'',
     ''volo-vault/local_dependencies/switchboard_sui/on_demand/sources/actions/aggregator/aggregator_delete_action.move'',
     ''volo-vault/local_dependencies/switchboard_sui/on_demand/sources/actions/aggregator/aggregator_submit_result_action.move'',
     ''volo-vault/local_dependencies/switchboard_sui/on_demand/sources/actions/oracle/oracle_init_action.move'',
     ''volo-vault/local_dependencies/switchboard_sui/on_demand/sources/actions/oracle/oracle_attest_action.move'',
     ''volo-vault/local_dependencies/switchboard_sui/on_demand/sources/actions/state/set_guardian_queue_id_action.move'',
     ''volo-vault/local_dependencies/switchboard_sui/on_demand/sources/actions/state/set_package_id_action.move'',
     ''volo-vault/local_dependencies/switchboard_sui/on_demand/sources/actions/state/set_oracle_queue_id_action.move'',
     ''volo-vault/local_dependencies/switchboard_sui/on_demand/sources/actions/queue/queue_set_authority_action.move'',
     ''volo-vault/local_dependencies/switchboard_sui/on_demand/sources/actions/queue/queue_set_configs_action.move'',
     ''volo-vault/local_dependencies/switchboard_sui/on_demand/sources/actions/queue/queue_add_fee_coin_action.move'',
     ''volo-vault/local_dependencies/switchboard_sui/on_demand/sources/actions/queue/oracle_queue_init_action.move'',
     ''volo-vault/local_dependencies/switchboard_sui/on_demand/sources/actions/queue/queue_remove_fee_coin_action.move'',
     ''volo-vault/local_dependencies/switchboard_sui/on_demand/sources/actions/queue/queue_override_oracle_action.move'',
     ''volo-vault/local_dependencies/switchboard_sui/on_demand/sources/actions/queue/guardian_queue_init_action.move'',
     ''volo-vault/local_dependencies/switchboard_sui/on_demand/sources/on_demand.move'',
     ''volo-vault/local_dependencies/mmt_v3/sources/global_config.move'',
     ''volo-vault/local_dependencies/mmt_v3/sources/pool.move'',
     ''volo-vault/local_dependencies/mmt_v3/sources/tick.move'',
     ''volo-vault/local_dependencies/mmt_v3/sources/liquidity.move'',
     ''volo-vault/local_dependencies/mmt_v3/sources/i128.move'',
     ''volo-vault/local_dependencies/mmt_v3/sources/collect.move'',
     ''volo-vault/local_dependencies/mmt_v3/sources/utils/utils.move'',
     ''volo-vault/local_dependencies/mmt_v3/sources/utils/liquidity_math.move'',
     ''volo-vault/local_dependencies/mmt_v3/sources/utils/sqrt_price_math.move'',
     ''volo-vault/local_dependencies/mmt_v3/sources/utils/tick_math.move'',
     ''volo-vault/local_dependencies/mmt_v3/sources/utils/constants.move'',
     ''volo-vault/local_dependencies/mmt_v3/sources/utils/swap_math.move'',
     ''volo-vault/local_dependencies/mmt_v3/sources/utils/comparator.move'',
     ''volo-vault/local_dependencies/mmt_v3/sources/utils/bit_math.move'',
     ''volo-vault/local_dependencies/mmt_v3/sources/utils/oracle.move'',
     ''volo-vault/local_dependencies/mmt_v3/sources/version.move'',
     ''volo-vault/local_dependencies/mmt_v3/sources/i64.move'',
     ''volo-vault/local_dependencies/mmt_v3/sources/i32.move'',
     ''volo-vault/local_dependencies/mmt_v3/sources/position.move'',
     ''volo-vault/local_dependencies/mmt_v3/sources/create_pool.move'',
     ''volo-vault/local_dependencies/mmt_v3/sources/trade.move'',
     ''volo-vault/local_dependencies/protocol/lending_core/sources/account.move'',
     ''volo-vault/local_dependencies/protocol/lending_core/sources/lending.move'',
     ''volo-vault/local_dependencies/protocol/lending_core/sources/logic.move'',
     ''volo-vault/local_dependencies/protocol/lending_core/sources/manage.move'',
     ''volo-vault/local_dependencies/protocol/lending_core/sources/validation.move'',
     ''volo-vault/local_dependencies/protocol/lending_core/sources/pool.move'',
     ''volo-vault/local_dependencies/protocol/lending_core/sources/incentive.move'',
     ''volo-vault/local_dependencies/protocol/lending_core/sources/storage.move'',
     ''volo-vault/local_dependencies/protocol/lending_core/sources/error.move'',
     ''volo-vault/local_dependencies/protocol/lending_core/sources/version.move'',
     ''volo-vault/local_dependencies/protocol/lending_core/sources/constants.move'',
     ''volo-vault/local_dependencies/protocol/lending_core/sources/dynamic_calculator.move'',
     ''volo-vault/local_dependencies/protocol/lending_core/sources/incentive_v3.move'',
     ''volo-vault/local_dependencies/protocol/lending_core/sources/calculator.move'',
     ''volo-vault/local_dependencies/protocol/lending_core/sources/incentive_v2.move'',
     ''volo-vault/local_dependencies/protocol/lending_core/sources/flash_loan.move'',
     ''volo-vault/local_dependencies/protocol/lending_ui/sources/incentive.move'',
     ''volo-vault/local_dependencies/protocol/lending_ui/sources/calculate.move'',
     ''volo-vault/local_dependencies/protocol/lending_ui/sources/getter.move'',
     ''volo-vault/local_dependencies/protocol/lending_ui/sources/incentive_v3.move'',
     ''volo-vault/local_dependencies/protocol/oracle/sources/oracle_pro.move'',
     ''volo-vault/local_dependencies/protocol/oracle/sources/oracle_manage.move'',
     ''volo-vault/local_dependencies/protocol/oracle/sources/oracle_error.move'',
     ''volo-vault/local_dependencies/protocol/oracle/sources/adaptor_pyth.move'',
     ''volo-vault/local_dependencies/protocol/oracle/sources/oracle_provider.move'',
     ''volo-vault/local_dependencies/protocol/oracle/sources/oracle_dynamic_getter.move'',
     ''volo-vault/local_dependencies/protocol/oracle/sources/strategy.move'',
     ''volo-vault/local_dependencies/protocol/oracle/sources/oracle_utils.move'',
     ''volo-vault/local_dependencies/protocol/oracle/sources/config.move'',
     ''volo-vault/local_dependencies/protocol/oracle/sources/oracle_version.move'',
     ''volo-vault/local_dependencies/protocol/oracle/sources/adaptor_supra.move'',
     ''volo-vault/local_dependencies/protocol/oracle/sources/oracle.move'',
     ''volo-vault/local_dependencies/protocol/oracle/sources/oracle_constants.move'',
     ''volo-vault/local_dependencies/protocol/utils/sources/utils.move'',
     ''volo-vault/local_dependencies/protocol/math/sources/ray_math.move'',
     ''volo-vault/local_dependencies/protocol/math/sources/safe_math.move'',
     ''volo-vault/local_dependencies/suilend_d/sprungsui/sources/sprungsui.move'',
     ''volo-vault/local_dependencies/suilend_d/suilend/sources/staker.move'',
     ''volo-vault/local_dependencies/suilend_d/suilend/sources/liquidity_mining.move'',
     ''volo-vault/local_dependencies/suilend_d/suilend/sources/decimal.move'',
     ''volo-vault/local_dependencies/suilend_d/suilend/sources/reserve_config.move'',
     ''volo-vault/local_dependencies/suilend_d/suilend/sources/oracles.move'',
     ''volo-vault/local_dependencies/suilend_d/suilend/sources/rate_limiter.move'',
     ''volo-vault/local_dependencies/suilend_d/suilend/sources/obligation.move'',
     ''volo-vault/local_dependencies/suilend_d/suilend/sources/cell.move'',
     ''volo-vault/local_dependencies/suilend_d/suilend/sources/reserve.move'',
     ''volo-vault/local_dependencies/suilend_d/suilend/sources/lending_market_registry.move'',
     ''volo-vault/local_dependencies/suilend_d/suilend/sources/lending_market.move'',
     ''volo-vault/local_dependencies/suilend_d/suilend/sources/suilend.move'',
     ''liquid_staking/sources/stake_pool.move'',
     ''liquid_staking/sources/manage.move'',
     ''liquid_staking/sources/fee_config.move'',
     ''liquid_staking/sources/volo_v1/native_pool.move'',
     ''liquid_staking/sources/volo_v1/validator_set.move'',
     ''liquid_staking/sources/volo_v1/ownership.move'',
     ''liquid_staking/sources/volo_v1/unstake_ticket.move'',
     ''liquid_staking/sources/volo_v1/math.move'',
     ''liquid_staking/sources/cert.move'',
     ''liquid_staking/sources/validator_pool.move'',
     ''liquid_staking/sources/migration/migrate.move'',
     ''volo-vault/sources/utils.move'',
     ''volo-vault/sources/volo_vault.move'',
     ''volo-vault/sources/manage.move'',
     ''volo-vault/sources/operation.move'',
     ''volo-vault/sources/user_entry.move'',
     ''volo-vault/sources/vault_receipt_info.move'',
     ''volo-vault/sources/receipt.move'',
     ''volo-vault/sources/requests/withdraw_request.move'',
     ''volo-vault/sources/requests/deposit_request.move'',
     ''volo-vault/sources/adaptors/momentum.adaptor.move'',
     ''volo-vault/sources/adaptors/cetus_adaptor.move'',
     ''volo-vault/sources/adaptors/suilend_adaptor.move'',
     ''volo-vault/sources/adaptors/receipt_adaptor.move'',
     ''volo-vault/sources/adaptors/navi_adaptor.move'',
     ''volo-vault/sources/reward_manager.move'',
     ''volo-vault/sources/oracle.move'',
     ''volo-vault/health-limiter/sources/adaptors/navi_limiter.move'',
     ''volo-vault/local_dependencies/switchboard_sui/on_demand/sources/utils/decimal.move'',
     ''volo-vault/local_dependencies/switchboard_sui/on_demand/sources/utils/hash.move'',
     ''volo-vault/local_dependencies/switchboard_sui/on_demand/sources/schemas/queue.move'',
     ''volo-vault/local_dependencies/switchboard_sui/on_demand/sources/schemas/aggregator.move'',
     ''volo-vault/local_dependencies/switchboard_sui/on_demand/sources/schemas/oracle.move'',
     ''volo-vault/local_dependencies/switchboard_sui/on_demand/sources/actions/aggregator/aggregator_set_authority_action.move'',
     ''volo-vault/local_dependencies/switchboard_sui/on_demand/sources/actions/aggregator/aggregator_init_action.move'',
     ''volo-vault/local_dependencies/switchboard_sui/on_demand/sources/actions/aggregator/aggregator_set_configs_action.move'',
     ''volo-vault/local_dependencies/switchboard_sui/on_demand/sources/actions/aggregator/aggregator_delete_action.move'',
     ''volo-vault/local_dependencies/switchboard_sui/on_demand/sources/actions/aggregator/aggregator_submit_result_action.move'',
     ''volo-vault/local_dependencies/switchboard_sui/on_demand/sources/actions/oracle/oracle_init_action.move'',
     ''volo-vault/local_dependencies/switchboard_sui/on_demand/sources/actions/oracle/oracle_attest_action.move'',
     ''volo-vault/local_dependencies/switchboard_sui/on_demand/sources/actions/state/set_guardian_queue_id_action.move'',
     ''volo-vault/local_dependencies/switchboard_sui/on_demand/sources/actions/state/set_package_id_action.move'',
     ''volo-vault/local_dependencies/switchboard_sui/on_demand/sources/actions/state/set_oracle_queue_id_action.move'',
     ''volo-vault/local_dependencies/switchboard_sui/on_demand/sources/actions/queue/queue_set_authority_action.move'',
     ''volo-vault/local_dependencies/switchboard_sui/on_demand/sources/actions/queue/queue_set_configs_action.move'',
     ''volo-vault/local_dependencies/switchboard_sui/on_demand/sources/actions/queue/queue_add_fee_coin_action.move'',
     ''volo-vault/local_dependencies/switchboard_sui/on_demand/sources/actions/queue/oracle_queue_init_action.move'',
     ''volo-vault/local_dependencies/switchboard_sui/on_demand/sources/actions/queue/queue_remove_fee_coin_action.move'',
     ''volo-vault/local_dependencies/switchboard_sui/on_demand/sources/actions/queue/queue_override_oracle_action.move'',
     ''volo-vault/local_dependencies/switchboard_sui/on_demand/sources/actions/queue/guardian_queue_init_action.move'',
     ''volo-vault/local_dependencies/switchboard_sui/on_demand/sources/on_demand.move'',
     ''volo-vault/local_dependencies/mmt_v3/sources/global_config.move'',
     ''volo-vault/local_dependencies/mmt_v3/sources/pool.move'',
     ''volo-vault/local_dependencies/mmt_v3/sources/tick.move'',
     ''volo-vault/local_dependencies/mmt_v3/sources/liquidity.move'',
     ''volo-vault/local_dependencies/mmt_v3/sources/i128.move'',
     ''volo-vault/local_dependencies/mmt_v3/sources/collect.move'',
     ''volo-vault/local_dependencies/mmt_v3/sources/utils/utils.move'',
     ''volo-vault/local_dependencies/mmt_v3/sources/utils/liquidity_math.move'',
     ''volo-vault/local_dependencies/mmt_v3/sources/utils/sqrt_price_math.move'',
     ''volo-vault/local_dependencies/mmt_v3/sources/utils/tick_math.move'',
     ''volo-vault/local_dependencies/mmt_v3/sources/utils/constants.move'',
     ''volo-vault/local_dependencies/mmt_v3/sources/utils/swap_math.move'',
     ''volo-vault/local_dependencies/mmt_v3/sources/utils/comparator.move'',
     ''volo-vault/local_dependencies/mmt_v3/sources/utils/bit_math.move'',
     ''volo-vault/local_dependencies/mmt_v3/sources/utils/oracle.move'',
     ''volo-vault/local_dependencies/mmt_v3/sources/version.move'',
     ''volo-vault/local_dependencies/mmt_v3/sources/i64.move'',
     ''volo-vault/local_dependencies/mmt_v3/sources/i32.move'',
     ''volo-vault/local_dependencies/mmt_v3/sources/position.move'',
     ''volo-vault/local_dependencies/mmt_v3/sources/create_pool.move'',
     ''volo-vault/local_dependencies/mmt_v3/sources/trade.move'',
     ''volo-vault/local_dependencies/protocol/lending_core/sources/account.move'',
     ''volo-vault/local_dependencies/protocol/lending_core/sources/lending.move'',
     ''volo-vault/local_dependencies/protocol/lending_core/sources/logic.move'',
     ''volo-vault/local_dependencies/protocol/lending_core/sources/manage.move'',
     ''volo-vault/local_dependencies/protocol/lending_core/sources/validation.move'',
     ''volo-vault/local_dependencies/protocol/lending_core/sources/pool.move'',
     ''volo-vault/local_dependencies/protocol/lending_core/sources/incentive.move'',
     ''volo-vault/local_dependencies/protocol/lending_core/sources/storage.move'',
     ''volo-vault/local_dependencies/protocol/lending_core/sources/error.move'',
     ''volo-vault/local_dependencies/protocol/lending_core/sources/version.move'',
     ''volo-vault/local_dependencies/protocol/lending_core/sources/constants.move'',
     ''volo-vault/local_dependencies/protocol/lending_core/sources/dynamic_calculator.move'',
     ''volo-vault/local_dependencies/protocol/lending_core/sources/incentive_v3.move'',
     ''volo-vault/local_dependencies/protocol/lending_core/sources/calculator.move'',
     ''volo-vault/local_dependencies/protocol/lending_core/sources/incentive_v2.move'',
     ''volo-vault/local_dependencies/protocol/lending_core/sources/flash_loan.move'',
     ''volo-vault/local_dependencies/protocol/lending_ui/sources/incentive.move'',
     ''volo-vault/local_dependencies/protocol/lending_ui/sources/calculate.move'',
     ''volo-vault/local_dependencies/protocol/lending_ui/sources/getter.move'',
     ''volo-vault/local_dependencies/protocol/lending_ui/sources/incentive_v3.move'',
     ''volo-vault/local_dependencies/protocol/oracle/sources/oracle_pro.move'',
     ''volo-vault/local_dependencies/protocol/oracle/sources/oracle_manage.move'',
     ''volo-vault/local_dependencies/protocol/oracle/sources/oracle_error.move'',
     ''volo-vault/local_dependencies/protocol/oracle/sources/adaptor_pyth.move'',
     ''volo-vault/local_dependencies/protocol/oracle/sources/oracle_provider.move'',
     ''volo-vault/local_dependencies/protocol/oracle/sources/oracle_dynamic_getter.move'',
     ''volo-vault/local_dependencies/protocol/oracle/sources/strategy.move'',
     ''volo-vault/local_dependencies/protocol/oracle/sources/oracle_utils.move'',
     ''volo-vault/local_dependencies/protocol/oracle/sources/config.move'',
     ''volo-vault/local_dependencies/protocol/oracle/sources/oracle_version.move'',
     ''volo-vault/local_dependencies/protocol/oracle/sources/adaptor_supra.move'',
     ''volo-vault/local_dependencies/protocol/oracle/sources/oracle.move'',
     ''volo-vault/local_dependencies/protocol/oracle/sources/oracle_constants.move'',
     ''volo-vault/local_dependencies/protocol/utils/sources/utils.move'',
     ''volo-vault/local_dependencies/protocol/math/sources/ray_math.move'',
     ''volo-vault/local_dependencies/protocol/math/sources/safe_math.move'',
     ''volo-vault/local_dependencies/suilend_d/sprungsui/sources/sprungsui.move'',
     ''volo-vault/local_dependencies/suilend_d/suilend/sources/staker.move'',
     ''volo-vault/local_dependencies/suilend_d/suilend/sources/liquidity_mining.move'',
     ''volo-vault/local_dependencies/suilend_d/suilend/sources/decimal.move'',
     ''volo-vault/local_dependencies/suilend_d/suilend/sources/reserve_config.move'',
     ''volo-vault/local_dependencies/suilend_d/suilend/sources/oracles.move'',
     ''volo-vault/local_dependencies/suilend_d/suilend/sources/rate_limiter.move'',
     ''volo-vault/local_dependencies/suilend_d/suilend/sources/obligation.move'',
     ''volo-vault/local_dependencies/suilend_d/suilend/sources/cell.move'',
     ''volo-vault/local_dependencies/suilend_d/suilend/sources/reserve.move'',
     ''volo-vault/local_dependencies/suilend_d/suilend/sources/lending_market_registry.move'',
     ''volo-vault/local_dependencies/suilend_d/suilend/sources/lending_market.move'',
     ''volo-vault/local_dependencies/suilend_d/suilend/sources/suilend.move'']"

section \<open>Text of a list of strings\<close>

text \<open>
  An f-string field \<^verbatim>\<open>{x}\<close> inserts \<^verbatim>\<open>format(x, '')\<close>: a \<^verbatim>\<open>str\<close> as it is, a list as
  \<^verbatim>\<open>repr\<close> gives it, the \<^verbatim>\<open>repr\<close> of its elements between brackets and separated by a comma
  and a space.

  \<^verbatim>\<open>repr\<close> of a \<^verbatim>\<open>str\<close> puts it between apostrophes, or between double quotes when it
  holds an apostrophe and no double quote. Inside, the chosen quote and the backslash get
  a backslash, tab, line feed and carriage return are written \<^verbatim>\<open>\t\<close>, \<^verbatim>\<open>\n\<close>, \<^verbatim>\<open>\r\<close>, any
  other control character is written \<^verbatim>\<open>\xNN\<close>, and every other ASCII character stands for
  itself. The bytes of a character beyond ASCII stand for themselves, as Python leaves a
  printable character; the escapes of unprintable characters beyond ASCII are not
  modelled, and no path of the registry has one.
\<close>

definition hex_digit :: "nat \<Rightarrow> char" where
  "hex_digit d = ''0123456789abcdef'' ! d"

definition repr_char :: "char \<Rightarrow> char \<Rightarrow> string" where
  "repr_char quote c =
     (if c = quote \<or> c = CHR 0x5C then [CHR 0x5C, c]
      else if c = CHR 0x09 then [CHR 0x5C, CHR ''t'']
      else if c = CHR 0x0A then [CHR 0x5C, CHR ''n'']
      else if c = CHR 0x0D then [CHR 0x5C, CHR ''r'']
      else if (of_char c :: nat) < 32 \<or> (of_char c :: nat) = 127 then
        [CHR 0x5C, CHR ''x'', hex_digit (of_char c div 16), hex_digit (of_char c mod 16)]
      else [c])"

definition repr_str :: "string \<Rightarrow> string" where
  "repr_str s =
     (let quote = (if CHR 0x27 \<in> set s \<and> CHR 0x22 \<notin> set s then CHR 0x22 else CHR 0x27)
      in quote # concat (map (repr_char quote) s) @ [quote])"

fun join :: "string \<Rightarrow> string list \<Rightarrow> string" where
  "join sep [] = []"
| "join sep [x] = x"
| "join sep (x # y # ys) = x @ sep @ join sep (y # ys)"

definition str_of_list :: "string list \<Rightarrow> string" where
  "str_of_list xs = ''['' @ join '', '' (map repr_str xs) @ '']''"

text \<open>
  A character that \<^verbatim>\<open>repr\<close> writes as itself between apostrophes: neither an apostrophe
  nor a backslash nor a control character.
\<close>

definition plain_char :: "char \<Rightarrow> bool" where
  "plain_char c =
     (c \<noteq> CHR 0x27 \<and> c \<noteq> CHR 0x5C \<and> 32 \<le> (of_char c :: nat) \<and> (of_char c :: nat) \<noteq> 127)"

section \<open>The globals of the loaded module\<close>

text \<open>
  Loading the module binds \<^verbatim>\<open>run_number\<close>, \<^verbatim>\<open>BASE_URL\<close> and \<^verbatim>\<open>scope_files\<close>, in this
  order, unless \<^verbatim>\<open>BASE_URL\<close> raises. The functions of the module read these globals at
  the time of the call.
\<close>

record module_globals =
  g_run_number :: string
  g_BASE_URL :: string
  g_scope_files :: "string list"

definition load_module :: "string option \<Rightarrow> py_error + module_globals" where
  "load_module env =
     (case BASE_URL (run_number_of_env env) of
        Inl e \<Rightarrow> Inl e
      | Inr url \<Rightarrow>
          Inr \<lparr>g_run_number = run_number_of_env env, g_BASE_URL = url, g_scope_files = scope_files\<rparr>)"

text \<open>The globals of a process started without \<^verbatim>\<open>GITHUB_RUN_NUMBER\<close>.\<close>

definition initial_globals :: module_globals where
  "initial_globals =
     \<lparr>g_run_number = ''0'',
      g_BASE_URL = ''https://deepwiki.com/Sui-Volo/volo-smart-contracts'',
      g_scope_files = scope_files\<rparr>"

section \<open>The prompt builders\<close>

text \<open>
  Each builder returns one f-string: fixed text with the argument inserted at every field
  that names it, and in \<^verbatim>\<open>validation_format\<close> the global \<^verbatim>\<open>scope_files\<close> at its field. The
  fixed text between two fields is one constant, numbered in the order of the template.
  A call reads the globals and assigns none, so it returns them as it found them.

  The templates hold three characters beyond ASCII, here as their UTF-8 bytes: the cross
  mark U+274C and the double quotation marks U+201C and U+201D.
\<close>

definition cross_mark :: string where
  "cross_mark = [CHR 0xE2, CHR 0x9D, CHR 0x8C]"

definition left_quote :: string where
  "left_quote = [CHR 0xE2, CHR 0x80, CHR 0x9C]"

definition right_quote :: string where
  "right_quote = [CHR 0xE2, CHR 0x80, CHR 0x9D]"

definition question_generator_text_1 :: string where
  \<open>question_generator_text_1 = ''
# **Generate 150+ Targeted Security Audit Questions for Volo Protocol (Liquid Staking LST + Volo Vault on Sui)**

## **Context**

The target project is **Volo** on **Sui Move**, composed of:
- **Liquid Staking**: stake/unstake SUI for LST, fee configuration (bps caps), epoch rollover rewards, boosted balances, validator pool management, validator weights, pause flag, operator/admin caps, delegation to specific validators, migration path from volo_v1, request/extra_fields bag storage.
- **Volo Vault**: multi-asset vault with request buffers for deposits/withdrawals, share accounting, fee caps, locking windows, loss tolerance per epoch, operation status gating (normal/during operation/disabled), operator freeze map, reward manager + vault receipts alignment, oracle price config, adaptors to external protocols (Navi lending_core, Suilend, Cetus CLMM, Momentum), DeFi asset borrow/return tracking, value update checks, health-limiter hooks.
- **Health Limiter**: adaptor checking Navi health factor before operations using oracle prices, emitting verification events.
- **Local Dependencies**: Switchboard on-demand oracle actions, MMT v3 AMM math, protocol lending_core/ui/oracle/math/utils, Suilend modules, ensuring cross-module integrity.

## **Scope**

**CRITICAL TARGET FILE**: Focus question generation EXCLUSIVELY on `''\<close>

definition question_generator_text_2 :: string where
  \<open>question_generator_text_2 = ''`

Note: Questions must be generated from **`''\<close>

definition question_generator_text_3 :: string where
  \<open>question_generator_text_3 = ''`** only. If you cannot generate 150 questions from this single file, generate as many high-quality questions as the file allows.  
If a file is more than a thousand lines, generate up to 300+ questions.  
Always generate as many strong questions as possible and do not return empty results.

## **Core Volo Components** (for reference only)

```python
core_components = [
    "liquid_staking/sources/stake_pool.move",
    "liquid_staking/sources/manage.move",
    "liquid_staking/sources/fee_config.move",
    "liquid_staking/sources/validator_pool.move",
    "liquid_staking/sources/volo_v1/*",
    "volo-vault/sources/*.move",
    "volo-vault/sources/adaptors/*.move",
    "volo-vault/sources/requests/*.move",
    "volo-vault/health-limiter/sources/adaptors/navi_limiter.move",
    "volo-vault/local_dependencies/**/sources/*.move",
]
```

## **Critical Invariant Areas**

- Auth/roles: admin vs operator caps, paused flag, operator freeze list, vault status gating (normal vs during operation vs disabled), migration restrictions, public share/transfer paths.
- Share/accounting: deposit/withdraw request buffers, share mint/burn math, receipt/vault ID matching, expected_shares/expected_amount slippage checks, fee caps vs defaults, boosted balances and accrued reward fees.
- Value & oracles: Switchboard on-demand aggregator correctness, price decimals (1e9/1e18) conversions, staleness tracking (`assets_value_updated`), tolerance reset per epoch, loss_tolerance enforcement.
- External adaptors: borrow/return of DeFi assets (Navi account caps, Cetus positions, Suilend obligations, Momentum positions, receipts) must be balanced; type/ID parsing via `vault_utils::parse_key`; no missing asset return; health factor checks via limiter.
- Operations lifecycle: pre/post op status toggling, total_usd_value snapshots, asset IDs/types alignment, op_value_update gating, locking windows for withdraw/cancel, request cancel timing.
- LST specifics: min stake amount, ratio math, supply zero checks, delegation path, validator weight updates, fee update bounds, pause enforcement.

## **In-Scope Vulnerability Categories**

- Authorization or pause/status bypass allowing restricted actions (mint, stake/unstake, op start/end, config update).
- Accounting/fee/ratio errors leading to share inflation/deflation, fee under/over-collection, loss tolerance bypass, or boosted reward mis-accounting.
- Oracle/value update issues causing incorrect USD valuations, stale price acceptance, overflow/underflow in decimal conversions.
- Asset custody/return failures in operations or adaptors (assets not returned, wrong type IDs, mismatched vault IDs).
- Locking/withdrawal window bypass, request buffer corruption, receipt mismatch enabling theft or denial of funds.
- External protocol misuse (health factor not enforced, missing approvals) enabling unsafe leverage or DoS.

## **Question Format Template**

Each question MUST follow this Python list format:

```python
questions = [
    "[File: ''\<close>

definition question_generator_text_4 :: string where
  \<open>question_generator_text_4 = ''] [Function: functionName()] [Vulnerability Type] Specific exploit scenario with preconditions, violated invariant, attacker action, and concrete impact? (High)",
]
```

## **Output Requirements**

Generate questions focusing EXCLUSIVELY on `''\<close>

definition question_generator_text_5 :: string where
  \<open>question_generator_text_5 = ''` that:

- Reference real functions/methods/logic blocks in `''\<close>

definition question_generator_text_6 :: string where
  \<open>question_generator_text_6 = ''`
- Include concrete exploit paths, not generic checks
- Tie each question to math logic, business logic, scenario validity, or invariant break
- Prioritize questions likely to result in **valid vulnerabilities**
- Avoid low-signal or non-exploitable questions
- Include severity `(Critical/High/Medium/Low)` in each question
- Use exact Python list format

## **Target Question Count**

- Small files: 80-150 questions when possible
- Medium files: 150+ questions
- Very large files (>1000 lines): 300+ questions
- If code size limits quantity, output as many quality questions as possible

Begin generating questions for `''\<close>

definition question_generator_text_7 :: string where
  \<open>question_generator_text_7 = ''` now.
''\<close>

definition question_generator :: "module_globals \<Rightarrow> string \<Rightarrow> string \<times> module_globals" where
  "question_generator g target_file =
     (question_generator_text_1 @ target_file @ question_generator_text_2 @ target_file @
      question_generator_text_3 @ target_file @ question_generator_text_4 @ target_file @
      question_generator_text_5 @ target_file @ question_generator_text_6 @ target_file @
      question_generator_text_7, g)"

definition validation_format_text_1 :: string where
  \<open>validation_format_text_1 = ''
You are an **Elite Volo Protocol Security Judge** with deep expertise in Sui Move liquid staking, vault accounting, oracle/value updates, external adaptor integrations (Navi/Cetus/Suilend/Momentum), and health-factor enforcement.

Your ONLY task is **ruthless technical validation** of the claim below.

Note: Trusted roles include Volo admin/operator caps, package publishing authorities, and honest oracle authorities for Switchboard; assume these roles are honest unless the claim is about mis-scoped privileges.

**SECURITY CLAIM TO VALIDATE:**
''\<close>

definition validation_format_text_2 :: string where
  \<open>validation_format_text_2 = ''

================================================================================
## **VOLO VALIDATION FRAMEWORK**

### **PHASE 1: IMMEDIATE DISQUALIFICATION CHECKS**
Reject immediately (`#NoVulnerability`) if **ANY** apply.

Note before a vulnerability can be considered valid it must have BOTH:
1) valid impact to protocol/users/funds/state integrity
2) valid likelihood / feasible trigger path

If it cannot be triggered in a realistic way, it is invalid (except pure logic invariant break that is directly reachable).

Return MUST be either:
- the original report (if valid)
- `#NoVulnerability` (if invalid)

Any vuln with no valid impact to the protocol is invalid.
Any scenario that needs attacker to deploy own contract and only self-harm is invalid.
Dark-forest user mistakes are not protocol vulnerabilities.

#### **A. Scope Violations**
- '' @ cross_mark @ '' Affects files not in production source scope
- '' @ cross_mark @ '' Targets tests, mocks, examples, scripts, docs, comments, style-only issues
- '' @ cross_mark @ '' Claims on off-chain tooling instead of on-chain protocol logic
- '' @ cross_mark @ '' Issues that only exist in test-only behavior

**In-Scope Volo smart contract files**
```python
scope_files = ''\<close>

definition validation_format_text_3 :: string where
  \<open>validation_format_text_3 = ''
```

#### **B. Threat Model Violations**
- '' @ cross_mark @ '' Requires compromised protocol admin/operator/developer/private keys
- '' @ cross_mark @ '' Assumes malicious Sui validators / consensus break / chain reorg control
- '' @ cross_mark @ '' Depends on breaking cryptographic primitives or Sui runtime internals
- '' @ cross_mark @ '' Relies on phishing, social engineering, user wallet compromise
- '' @ cross_mark @ '' Pure network-layer attacks (DDoS/BGP/DNS/etc.) outside protocol logic

#### **C. Known/Non-Security Exclusions**
- '' @ cross_mark @ '' Already known/fixed issues without current exploit path
- '' @ cross_mark @ '' Gas/performance/style improvements without concrete security impact
- '' @ cross_mark @ '' Logging/events/documentation-only suggestions
- '' @ cross_mark @ '' Theoretical concerns without executable path and state impact
- '' @ cross_mark @ '' Precision differences with negligible or non-exploitable effect

#### **D. Invalid Exploit Scenarios**
- '' @ cross_mark @ '' Impossible inputs or invalid transaction semantics
- '' @ cross_mark @ '' Needs calling non-reachable internal-only paths
- '' @ cross_mark @ '' Requires unrealistic privileges not available to attacker
- '' @ cross_mark @ '' Requires self-loss with no protocol invariant break
- '' @ cross_mark @ '' Cannot produce measurable impact on balances, funds destination, ownership, or authorization

### **PHASE 2: VOLO DEEP CODE VALIDATION**

#### **Step 1: Trace Complete Execution Path**
For each claim, reconstruct:
1. Entry point (public/entry Move function)
2. Full call chain
3. Pre-state (vault status, pause flag, fee bounds, locking windows, loss tolerance/epoch, oracle update timestamps, receipt/vault match, health factor thresholds, adaptor assets present)
4. State transitions at each step
5. Existing guards/checks (cap/auth checks, paused/status checks, fee/amount bounds, share math, price decimals, tolerance enforcement, asset return checks, locking windows, health limiter)
6. Final post-state and violated invariant

If any path step is missing or non-reachable, reject as `#NoVulnerability`.

#### **Step 2: Evidence Requirements**
A valid report must provide:
- Exact file path(s) and relevant line references
- Concrete vulnerable logic and bypass explanation
- Triggerable transaction flow with realistic attacker actions
- Why protections do not stop it
- Quantified impact (fund loss, share dilution, receipt/vault desync, unauthorized admin/operator action)

Red flags -> invalid:
- '' @ left_quote @ ''might be vulnerable'' @ right_quote @ '' without exploit sequence
- no clear invariant broken
- no impact beyond revert/no-op
- assumptions that contradict Sui Move semantics

#### **Step 3: VOLO-Specific Validity Checks**
Validate claims against these invariant domains:

1. **Config & Auth**
- Admin/operator cap checks; pause flag; vault status (normal/during operation/disabled); operator freeze map; migration rules.

2. **Staking / Vault Requests**
- Stake/unstake min amounts; share mint/burn math; boosted balances; request buffers; locking windows; cancel timeouts; receipt/vault ID alignment; expected_shares/expected_amount honored.

3. **Operations & Asset Custody**
- pre_vault_check/post operation status; all borrowed DeFi assets returned; asset ID/type mapping; total_usd_value/tolerance checks; op_value_update gating; loss_tolerance enforcement.

4. **Oracle & Valuation**
- Switchboard on-demand price integrity; decimal conversions (1e9/1e18); staleness via `assets_value_updated`; USD value aggregation; overflow/underflow boundaries.

5. **External Integrations**
- Health limiter enforced before risky ops; adaptors correctly handle account caps/positions/obligations; no unauthorized transfer or leakage.

### **PHASE 3: IMPACT + LIKELIHOOD JUDGMENT**

A vulnerability is valid ONLY if BOTH are true:

1. **Impact is valid**
- Direct or indirect fund loss/misdirection (vault principal, LST fees, oracle collateral)
- Unauthorized ownership/receipt/vault record corruption or asset theft
- Pricing/accounting corruption (share inflation/deflation, fee bypass, loss tolerance bypass)
- Unauthorized config/auth/status change (pause/disable, operator freeze, caps)
- High-confidence protocol DoS via valid calls (vault stuck during operation, request buffer lock, oracle dependence)

2. **Likelihood is valid**
- Real attacker can execute via public interfaces
- No privileged assumptions beyond noted caps/roles
- Reasonable preconditions
- Reproducible path under normal chain rules

If either impact or likelihood fails -> `#NoVulnerability`.

### **DECISION OUTPUT (STRICT)**
           
---            
            
**AUDIT REPORT FORMAT** (if vulnerability found):            
            
Audit Report            
            
## Title 
The Title Of the Report 

## Summary
A short summary of the issue, keep it brief.

## Finding Description
A more detailed explanation of the issue. Poorly written or incorrect findings may result in rejection and a decrease of reputation score.

Describe which security guarantees it breaks and how it breaks them. If this bug does not automatically happen, showcase how a malicious input would propagate through the system to the part of the code where the issue occurs.

## Impact Explanation
Elaborate on why you've chosen a particular impact assessment.

## Likelihood Explanation
Explain how likely this is to occur and why.


## Recommendation
How can the issue be fixed or solved. Preferably, you can also add a snippet of the fixed code here.


## Proof of Concept
Note very important the poc must have a valid test that runs just one function that proove the vuln 
  **Remember**: False positives harm credibility more than missed findings. Assume claims are invalid until overwhelming evidence proves otherwise.    
    
**Now perform STRICT validation of the claim above.**    
    
**Output ONLY:**    
- A full audit report (if genuinely valid after passing **all** checks above) following the specified format    
- `#NoVulnerability found for this question.` (if **any** check fails) very important    
- Note if u cant validate the claim or dont understand just send #NoVulnerability    
- Only show full report when u know this is actually and truly a  valid vulnerability ''\<close>

definition validation_format :: "module_globals \<Rightarrow> string \<Rightarrow> string \<times> module_globals" where
  "validation_format g report =
     (validation_format_text_1 @ report @ validation_format_text_2 @
      str_of_list (g_scope_files g) @ validation_format_text_3, g)"

definition audit_format_text_1 :: string where
  \<open>audit_format_text_1 = ''# VOLO PROTOCOL SECURITY AUDIT PROMPT

## Security Question to Investigate:
''\<close>

definition audit_format_text_2 :: string where
  \<open>audit_format_text_2 = ''

## Codebase Context

### Core Components
You are auditing **Volo**, a Sui Move suite including liquid staking (LST) and a multi-asset vault with external protocol adaptors:

**Liquid Staking (`liquid_staking/sources/*`)**
- Stake/unstake SUI for LST, fee configuration with bps caps, boosted balances, epoch rollover rewards, validator pool weights, pause flag, admin/operator caps, delegation, migration from volo_v1.

**Volo Vault (`volo-vault/sources/*`)**
- Vault object with share accounting, request buffers for deposits/withdrawals, fee caps, locking windows, loss tolerance per epoch, operation status gating, operator freeze map, reward manager + receipt alignment, oracle config, USD valuation tables, operation start/end.

**Adaptors & Health Limiter**
- Integrations for Cetus CLMM, Navi lending_core, Suilend, Momentum positions, receipt adaptor; health limiter enforcing Navi health factor; asset borrow/return via parse_key IDs.

**Local Dependencies**
- Switchboard on-demand oracle actions; MMT v3 math/AMM; protocol lending_core/ui/oracle/math/utils; suilend_d modules.

## CRITICAL INVARIANTS (Must Hold at All Times)

1. **Authorization & Enablement**
- Admin/operator caps enforced; pause and vault status gates (normal/during operation/disabled); operator freeze respected; migration/publish integrity.

2. **Staking & Vault Requests**
- Min stake amounts, ratio math, fee caps; request buffers; locking windows; cancel timeouts; receipt/vault ID alignment; expected_shares/expected_amount checks.

3. **Pricing & Funds**
- Fee caps enforced; share mint/burn consistency; loss_tolerance per epoch; total_usd_value correctness.

4. **Asset Custody & Operations**
- All borrowed DeFi assets returned; asset IDs/types match; operation start/end status toggles; op_value_update gating; tolerance reset.

5. **Oracle & Valuation**
- Switchboard price handling, decimal conversions (1e9/1e18), staleness checks (`assets_value_updated`), overflow/underflow bounds.

6. **External Integrations**
- Health-factor enforcement for Navi; adaptors for Cetus/Suilend/Momentum handle assets safely; no leakage of account caps/positions.

## ATTACK SURFACES

### 1. Staking & Requests
- `stake_entry`, `delegate_stake_entry`, `unstake` flows, epoch rollover, fee updates, pause toggles, validator weight updates.

### 2. Migration & Upgrades
- Migration from volo_v1, publish upgrades, admin/operator cap distribution.

### 3. Receipt & Vault Integrity
- Receipt issuance/matching, vault_id/receipt_id alignment, request buffers, reward manager interactions.

### 4. Config & Pricing
- Fee caps, tolerance, locking windows, status toggles, oracle config/value updates.

### 5. Operations & Adaptors
- Operation start/end with adaptors (Cetus/Navi/Suilend/Momentum/Receipt), asset borrow/return, health limiter checks.

## VULNERABILITY VALIDATION REQUIREMENTS

A finding is ONLY valid if it passes ALL checks:

### Impact Assessment (Must be Concrete)
- [ ] **Direct Fund Impact**: vault/LST fund theft, fee under/over-collection, misrouting of balances or rewards
- [ ] **Custody/Receipt Integrity**: unauthorized receipt/vault record corruption, wrong recipient, missing asset return
- [ ] **Security Integrity Impact**: authorization/pause/status/health-limiter bypass, loss_tolerance or value-update bypass
- [ ] **Operational Impact**: meaningful DoS via valid user actions (vault stuck in operation, requests locked, oracle dependence)

Impact must be real and measurable, not theoretical.

### Likelihood Assessment (Must be Practical)
- [ ] **Reachable Entry Point**: exploit starts from real public/entry callable flow
- [ ] **Feasible Preconditions**: attacker capabilities realistic for untrusted users
- [ ] **Execution Practicality**: steps executable under Move semantics and protocol checks
- [ ] **Economic Rationality**: attack cost and constraints do not make exploit non-viable

Likelihood must be realistic.

### Validation Checklist
Before reporting a vulnerability, verify:

1. [ ] Exact file/function/line references
2. [ ] Root cause clearly identified
3. [ ] End-to-end exploitation path
4. [ ] Existing checks shown insufficient
5. [ ] Realistic attack parameters and sequence
6. [ ] Concrete impact quantification
7. [ ] No reliance on trusted role compromise
8. [ ] No contradiction with Sui Move execution model

## AUDIT REPORT FORMAT

If a valid vulnerability is found (passes all checks), output this EXACT structure:

### Title
[Concise vulnerability title]

### Summary
[2-3 sentence summary of issue and consequence]

### Finding Description
[Technical details including:
- exact code location(s)
- root cause
- why protections fail
- relevant execution path]

### Impact Explanation
[Concrete impact:
- what harm occurs
- quantified value/protocol damage
- who is affected
- severity justification]

### Likelihood Explanation
[Realistic exploitability:
- attacker capabilities
- attack complexity
- feasibility conditions
- detection/operational constraints
- probability reasoning]

### Recommendation
[Actionable fix:
- exact code-level mitigation
- invariant checks to add
- test cases to prevent regression]

### Proof of Concept
[Reproducible exploit sequence:
- required initial state
- transaction steps
- expected vs actual result
- clear success condition]

## STRICT OUTPUT REQUIREMENT

After investigation:

IF a vulnerability passes ALL validation gates with clear evidence:
-> Output the complete audit report in the format above

IF no valid vulnerability exists:
-> Output exactly: "#NoVulnerability found for this question."

Do not output anything else.

## Investigation Guidelines

1. Start from entry functions reachable by untrusted users
2. Trace full state transitions and all side effects
3. Check math/rounding/decimal boundaries and extreme values
4. Check cross-module flows (stake_pool/manage/fee_config <-> validator_pool/volo_v1 <-> vault/request buffers <-> adaptors/oracle/health-limiter)
5. Validate enablement/auth/fee/locking/value-update checks end-to-end
6. Reject speculative findings lacking concrete exploit path

Remember: only report vulnerabilities with both valid impact and valid likelihood.

Begin investigation of: ''\<close>

definition audit_format_text_3 :: string where
  \<open>audit_format_text_3 = ''
''\<close>

definition audit_format :: "module_globals \<Rightarrow> string \<Rightarrow> string \<times> module_globals" where
  "audit_format g security_question =
     (audit_format_text_1 @ security_question @ audit_format_text_2 @ security_question @
      audit_format_text_3, g)"

definition scan_format_text_1 :: string where
  \<open>scan_format_text_1 = ''# VOLO PROTOCOL CROSS-PROTOCOL ANALOG SCAN PROMPT

## External Report To Map Into Volo
''\<close>

definition scan_format_text_2 :: string where
  \<open>scan_format_text_2 = ''

## Objective
You are a senior protocol security researcher. Your job is to analyze the external report above and determine whether the **same vulnerability class** (not necessarily exact code pattern) can occur anywhere in Volo smart contracts.

You must deeply scan Volo logic across modules, execution paths, state transitions, and invariants.

## Volo Modules To Scan

- `liquid_staking` (stake_pool, manage, fee_config, validator_pool, volo_v1/*, migration)
- `volo-vault` (vault, manage, operation, user_entry, reward_manager, oracle, utils, vault_receipt_info, requests/*)
- `volo-vault/sources/adaptors` (cetus, suilend, navi, momentum, receipt)
- `volo-vault/health-limiter` (navi_limiter adaptor)
- `volo-vault/local_dependencies` (switchboard_sui/on_demand, mmt_v3, protocol lending_core/ui/oracle/math/utils, suilend_d)

## Core Scan Method

1. **Classify the external vuln type**
- authorization/pause/status/operator-cap bypass
- staking/vault request/accounting/locking/loss_tolerance violation
- pricing/fee/valuation underpayment or misdirection
- oracle or decimal conversion errors
- asset custody/return failure in operations/adaptors
- health-factor or risk-limit bypass
- denial of service through valid calls (vault stuck, request buffers locked, operation status never reset)

2. **Map to Volo analog surfaces**
- Identify equivalent trust boundaries and data-flow points in Volo modules
- Search for functionally similar logic, even if naming differs
- Check cross-module interactions, not just one file

3. **Trace full exploitability path**
- Real entry point (public/entry callable path)
- Preconditions attacker can realistically satisfy
- Step-by-step transition chain
- Why current checks fail
- Final broken invariant

4. **Validate impact + likelihood strictly**
- Must have concrete protocol impact
- Must have realistic trigger path
- No speculative or theoretical-only claims

## Critical Invariants To Test During Scan

- No unauthorized config/pause/status changes; operator freeze respected
- Min stake amounts, fee caps, share math, request buffer integrity, locking windows
- All borrowed DeFi assets returned; asset IDs/types consistent; operation status reset
- Oracle price correctness, decimal conversions (1e9/1e18), staleness control
- Health limiter enforced for risky borrowing; loss_tolerance not bypassed

## Disqualification Rules (Immediate #NoVulnerability)

Reject if ANY apply:

- Not reproducible through Volo public/entry flows
- Requires compromised admin/operator/developer/validator keys
- Depends on impossible Sui execution assumptions
- Only causes self-harm or non-protocol impact
- Has no concrete impact on funds, ownership/receipts, authorization, or critical availability
- Impact exists but no realistic likelihood
- Likelihood exists but no valid impact

## Required Decision Standard

A vulnerability is valid ONLY if BOTH are true:

1. **Valid Impact**
- Fund theft/drain or fee/valuation misrouting
- Unauthorized receipt/vault corruption or asset misappropriation
- Pricing/accounting/fee/loss_tolerance corruption
- Unauthorized config/pause/status/operator change
- High-confidence protocol DoS via valid calls

2. **Valid Likelihood**
- Reachable by untrusted actor
- Feasible preconditions
- Executable sequence under protocol rules
- Not blocked by existing checks

If either fails, it is invalid.

## Output Format (Strict)

If valid analog vulnerability is found in Volo, output full report in this exact structure:

### Title
[Concise vulnerability title]

### Summary
[2-3 sentence summary of mapped vulnerability and impact]

### Finding Description
[Detailed technical mapping from external report type to Volo:
- exact Volo file/function/line references
- root cause in Volo
- exploit path and why protections fail]

### Impact Explanation
[Concrete Volo impact and severity justification]

### Likelihood Explanation
[Realistic exploit feasibility in Volo context]

### Recommendation
[Specific code-level mitigation for Volo]

### Proof of Concept
[Reproducible Volo exploit steps with realistic state/inputs]

If no valid analog vulnerability is found, output exactly:
`#NoVulnerability found for this question.`

Do not output anything else.

## Additional Guidance

- Use the external report as a vulnerability-class hint, not as proof.
- Confirm with Volo-specific code logic only.
- Prefer false-negative over false-positive.
- A claim without executable exploit chain is invalid.

Begin deep analog scan now.
''\<close>

definition scan_format :: "module_globals \<Rightarrow> string \<Rightarrow> string \<times> module_globals" where
  "scan_format g report = (scan_format_text_1 @ report @ scan_format_text_2, g)"

text \<open>
  A prompt embeds the registry when the text of the list, as an f-string field writes it,
  occurs in the prompt; it names every path when each path of the list occurs in it.
\<close>

definition embeds_registry :: "string list \<Rightarrow> string \<Rightarrow> bool" where
  "embeds_registry reg out = sublist (str_of_list reg) out"

definition names_every_path :: "string list \<Rightarrow> string \<Rightarrow> bool" where
  "names_every_path reg out = list_all (\<lambda>p. sublist p out) reg"


section \<open>Decimal text of small numbers\<close>







section \<open>The cyclic index\<close>

lemma cyclic_value_range: "1 \<le> m \<Longrightarrow> 1 \<le> (r - 1) mod m + 1 \<and> (r - 1) mod m + 1 \<le> (m::int)"
proof -
  assume "1 \<le> m"
  then have "0 < m" by simp
  then have "0 \<le> (r - 1) mod m" "(r - 1) mod m < m"
    by (simp_all only: pos_mod_sign pos_mod_bound)
  then show ?thesis by simp
qed

lemma get_cyclic_index_int:
  "m \<noteq> 0 \<Longrightarrow> get_cyclic_index (PyInt r) m = Inr ((r - 1) mod m + 1)"
  by (simp add: get_cyclic_index_def)


text \<open>
  C3: for every integer \<open>r \<ge> 1\<close> and every bound \<open>m \<ge> 1\<close> the cyclic index is
  \<open>((r - 1) mod m) + 1\<close>, it lies between 1 and \<open>m\<close>, and the index of 1 is 1.
\<close>

theorem get_cyclic_index_value_and_range:
  assumes "1 \<le> r" and "1 \<le> m"
  shows "get_cyclic_index (PyInt r) m = Inr ((r - 1) mod m + 1) \<and>
         1 \<le> (r - 1) mod m + 1 \<and> (r - 1) mod m + 1 \<le> m \<and>
         get_cyclic_index (PyInt 1) m = Inr 1"
proof -
  from assms(2) have nz: "m \<noteq> 0" by simp
  have "get_cyclic_index (PyInt 1) m = Inr 1"
    using nz by (simp add: get_cyclic_index_int)
  with nz cyclic_value_range[OF assms(2), of r] show ?thesis
    by (simp add: get_cyclic_index_int)
qed

theorem get_cyclic_index_value_and_range_witness:
  "(1::int) \<le> 31 \<and> (1::int) \<le> 30 \<and> get_cyclic_index (PyInt 31) 30 = Inr 1 \<and>
   get_cyclic_index (PyInt 1) 30 = Inr 1"
  using get_cyclic_index_value_and_range[of 31 30] by simp

text \<open>
  C4: the cyclic index has the bound as its period: for every integer \<open>r \<ge> 1\<close> and
  every bound \<open>m \<ge> 1\<close> the index of \<open>r + m\<close> is the index of \<open>r\<close>, an integer and no
  error; the index of \<open>m + 1\<close> is 1 again.
\<close>

theorem get_cyclic_index_periodic:
  assumes "1 \<le> r" and "1 \<le> m"
  shows "get_cyclic_index (PyInt (r + m)) m = get_cyclic_index (PyInt r) m \<and>
         (\<exists>k. get_cyclic_index (PyInt r) m = Inr k) \<and>
         get_cyclic_index (PyInt (m + 1)) m = Inr 1"
proof -
  from assms(2) have nz: "m \<noteq> 0" by simp
  have "r + m - 1 = (r - 1) + m"
    by simp
  then have "(r + m - 1) mod m = (r - 1) mod m"
    by (simp only: mod_add_self2)
  moreover have "(m + 1 - 1) mod m = 0"
    by simp
  ultimately show ?thesis
    using nz by (simp add: get_cyclic_index_int)
qed

theorem get_cyclic_index_periodic_witness:
  "(1::int) \<le> 5 \<and> (1::int) \<le> 30 \<and>
   get_cyclic_index (PyInt 35) 30 = get_cyclic_index (PyInt 5) 30 \<and>
   get_cyclic_index (PyInt 5) 30 = Inr 5 \<and> get_cyclic_index (PyInt 31) 30 = Inr 1"
  using get_cyclic_index_periodic[of 5 30] by (simp add: get_cyclic_index_int)

section \<open>The base URL\<close>










text \<open>
  C2: when the run counter is the text \<open>0\<close>, which is also what the module reads when
  the environment has no run counter, \<open>BASE_URL\<close> is exactly the canonical URL.
\<close>

theorem BASE_URL_canonical:
  "BASE_URL ''0'' = Inr ''https://deepwiki.com/Sui-Volo/volo-smart-contracts'' \<and>
   BASE_URL (run_number_of_env None) = Inr ''https://deepwiki.com/Sui-Volo/volo-smart-contracts''"
  by (simp add: BASE_URL_def SOURCE_REPO_def run_number_of_env_def)






section \<open>The registry inside its text\<close>

lemma repr_char_plain: "plain_char c \<Longrightarrow> repr_char (CHR 0x27) c = [c]"
  by (auto simp: plain_char_def repr_char_def)

lemma concat_repr_char_plain:
  "list_all plain_char p \<Longrightarrow> concat (map (repr_char (CHR 0x27)) p) = p"
  by (induction p) (simp_all add: repr_char_plain)

lemma plain_no_apostrophe: "list_all plain_char p \<Longrightarrow> CHR 0x27 \<notin> set p"
  by (auto simp: list_all_iff plain_char_def)

lemma repr_str_plain: "list_all plain_char p \<Longrightarrow> repr_str p = CHR 0x27 # p @ [CHR 0x27]"
  by (simp add: repr_str_def Let_def plain_no_apostrophe concat_repr_char_plain)

lemma sublist_join: "x \<in> set xs \<Longrightarrow> sublist x (join sep xs)"
proof (induction sep xs rule: join.induct)
  case (1 sep)
  then show ?case by simp
next
  case (2 sep y)
  then show ?case by simp
next
  case (3 sep y z zs)
  show ?case
  proof (cases "x = y")
    case True
    then show ?thesis by simp
  next
    case False
    with 3 have "sublist x (join sep (z # zs))"
      by simp
    then obtain ps ss where "join sep (z # zs) = ps @ x @ ss"
      by (auto simp: sublist_def)
    then have "join sep (y # z # zs) = (y @ sep @ ps) @ x @ ss"
      by simp
    then show ?thesis
      unfolding sublist_def by blast
  qed
qed

lemma sublist_chain: "sublist a b \<Longrightarrow> sublist b c \<Longrightarrow> sublist a c"
  using sublist_order.order_trans by blast

lemma sublist_str_of_list:
  assumes "p \<in> set reg" and "list_all plain_char p"
  shows "sublist p (str_of_list reg)"
proof -
  have "sublist p (repr_str p)"
    using assms(2) by (simp add: repr_str_plain sublist_Cons_right)
  moreover have "sublist (repr_str p) (join '', '' (map repr_str reg))"
    using assms(1) by (intro sublist_join) simp
  moreover have "sublist (join '', '' (map repr_str reg)) (str_of_list reg)"
    unfolding str_of_list_def by (rule sublist_appendI)
  ultimately show ?thesis
    by (blast intro: sublist_chain)
qed

lemma scope_files_plain: "list_all (list_all plain_char) scope_files"
  unfolding scope_files_def by (simp add: plain_char_def)

lemma load_module_None: "load_module None = Inr initial_globals"
  by (simp add: load_module_def run_number_of_env_def BASE_URL_def SOURCE_REPO_def
      initial_globals_def)

lemma load_module_scope_files: "load_module env = Inr g \<Longrightarrow> g_scope_files g = scope_files"
  by (auto simp: load_module_def split: sum.splits)

lemma validation_format_has_registry:
  "sublist (str_of_list (g_scope_files g)) (fst (validation_format g report))"
proof -
  have "fst (validation_format g report) =
        (validation_format_text_1 @ report @ validation_format_text_2) @
        str_of_list (g_scope_files g) @ validation_format_text_3"
    by (simp add: validation_format_def)
  then show ?thesis
    by (simp only: sublist_appendI)
qed

section \<open>The prompt builders\<close>

text \<open>
  C7: for every input \<open>s\<close>, the prompt of \<open>question_generator\<close> and the prompt of
  \<open>validation_format\<close> contain \<open>s\<close> as it is, as one contiguous piece.
\<close>

theorem builders_contain_input:
  "sublist s (fst (question_generator g s)) \<and> sublist s (fst (validation_format g s))"
  by (simp add: question_generator_def validation_format_def)

text \<open>
  C8: in a loaded module, for every input, the prompt of \<open>validation_format\<close> contains
  every path of the list \<open>scope_files\<close>.
\<close>

theorem validation_format_names_every_path:
  assumes "load_module env = Inr g"
  shows "names_every_path scope_files (fst (validation_format g report))"
proof -
  have reg: "g_scope_files g = scope_files"
    using assms by (rule load_module_scope_files)
  have "sublist p (fst (validation_format g report))" if "p \<in> set scope_files" for p
  proof -
    from that scope_files_plain have "list_all plain_char p"
      by (simp add: list_all_iff)
    with that have "sublist p (str_of_list scope_files)"
      by (rule sublist_str_of_list)
    moreover have "sublist (str_of_list scope_files) (fst (validation_format g report))"
      using validation_format_has_registry[of g report] by (simp only: reg)
    ultimately show ?thesis
      by (rule sublist_chain)
  qed
  then show ?thesis
    by (simp add: names_every_path_def list_all_iff)
qed

theorem validation_format_names_every_path_witness:
  "load_module None = Inr initial_globals \<and>
   names_every_path scope_files (fst (validation_format initial_globals ''report''))"
  using validation_format_names_every_path[OF load_module_None, of "''report''"] load_module_None
  by simp

text \<open>
  C9: each of the four builders is deterministic. A call leaves the globals as they were,
  so a second call with the same input returns the same prompt, and the same globals, as
  the first; and the prompt does not depend on the run counter or on the URL that the
  module computed from the environment.
\<close>

theorem builders_deterministic:
  "question_generator (snd (question_generator g s)) s = question_generator g s \<and>
   validation_format (snd (validation_format g s)) s = validation_format g s \<and>
   audit_format (snd (audit_format g s)) s = audit_format g s \<and>
   scan_format (snd (scan_format g s)) s = scan_format g s \<and>
   fst (question_generator (g\<lparr>g_run_number := r, g_BASE_URL := u\<rparr>) s) =
     fst (question_generator g s) \<and>
   fst (validation_format (g\<lparr>g_run_number := r, g_BASE_URL := u\<rparr>) s) =
     fst (validation_format g s) \<and>
   fst (audit_format (g\<lparr>g_run_number := r, g_BASE_URL := u\<rparr>) s) = fst (audit_format g s) \<and>
   fst (scan_format (g\<lparr>g_run_number := r, g_BASE_URL := u\<rparr>) s) = fst (scan_format g s)"
  by (simp add: question_generator_def validation_format_def audit_format_def scan_format_def)

subsection \<open>Which builders embed the registry\<close>

text \<open>
  The path \<^verbatim>\<open>liquid_staking/sources/volo_v1/math.move\<close> is in the registry, and its piece
  \<^verbatim>\<open>h.\<close> occurs nowhere in the prompts that \<open>question_generator\<close>, \<open>audit_format\<close> and
  \<open>scan_format\<close> build from the empty input.
\<close>

lemma math_path_in_scope: "''liquid_staking/sources/volo_v1/math.move'' \<in> set scope_files"
  unfolding scope_files_def by simp

lemma math_path_plain: "list_all plain_char ''liquid_staking/sources/volo_v1/math.move''"
  by (simp add: plain_char_def)

lemma math_path_piece: "sublist ''h.'' ''liquid_staking/sources/volo_v1/math.move''"
  by (simp add: sublist_code prefix_code)

lemma question_generator_lacks_piece:
  "\<not> sublist ''h.'' (fst (question_generator initial_globals ''''))"
  unfolding question_generator_def question_generator_text_1_def question_generator_text_2_def
    question_generator_text_3_def question_generator_text_4_def question_generator_text_5_def
    question_generator_text_6_def question_generator_text_7_def
  by (simp add: sublist_code prefix_code)

lemma audit_format_lacks_piece:
  "\<not> sublist ''h.'' (fst (audit_format initial_globals ''''))"
  unfolding audit_format_def audit_format_text_1_def audit_format_text_2_def
    audit_format_text_3_def
  by (simp add: sublist_code prefix_code)

lemma scan_format_lacks_piece:
  "\<not> sublist ''h.'' (fst (scan_format initial_globals ''''))"
  unfolding scan_format_def scan_format_text_1_def scan_format_text_2_def
  by (simp add: sublist_code prefix_code)

lemma lacks_piece_lacks_registry:
  assumes "\<not> sublist ''h.'' out"
  shows "\<not> embeds_registry scope_files out \<and> \<not> names_every_path scope_files out"
proof -
  let ?p = "''liquid_staking/sources/volo_v1/math.move''"
  from assms have no_path: "\<not> sublist ?p out"
    using math_path_piece sublist_chain by blast
  have "sublist ?p (str_of_list scope_files)"
    using math_path_in_scope math_path_plain by (rule sublist_str_of_list)
  with no_path have "\<not> sublist (str_of_list scope_files) out"
    using sublist_chain by blast
  moreover from no_path math_path_in_scope have "\<not> list_all (\<lambda>p. sublist p out) scope_files"
    unfolding list_all_iff by blast
  ultimately show ?thesis
    by (simp add: embeds_registry_def names_every_path_def)
qed

text \<open>
  C6 as stated fails: the prompts that \<open>question_generator\<close>, \<open>audit_format\<close> and
  \<open>scan_format\<close> build from the empty input in a module loaded without run counter
  neither embed the text of the registry nor contain all of its paths.
\<close>

theorem builders_embed_registry_counterexample:
  "\<not> embeds_registry scope_files (fst (question_generator initial_globals '''')) \<and>
   \<not> names_every_path scope_files (fst (question_generator initial_globals '''')) \<and>
   \<not> embeds_registry scope_files (fst (audit_format initial_globals '''')) \<and>
   \<not> names_every_path scope_files (fst (audit_format initial_globals '''')) \<and>
   \<not> embeds_registry scope_files (fst (scan_format initial_globals '''')) \<and>
   \<not> names_every_path scope_files (fst (scan_format initial_globals ''''))"
  using lacks_piece_lacks_registry[OF question_generator_lacks_piece]
    lacks_piece_lacks_registry[OF audit_format_lacks_piece]
    lacks_piece_lacks_registry[OF scan_format_lacks_piece]
  by (simp only: simp_thms)

text \<open>
  C6 as amended: for every input, the prompt of \<open>validation_format\<close> embeds the registry,
  the text of the list \<open>scope_files\<close> as the module holds it at the call; the prompts of
  \<open>question_generator\<close>, \<open>audit_format\<close> and \<open>scan_format\<close> do not read the list and
  are the same whatever it holds.
\<close>

theorem validation_format_embeds_registry:
  "embeds_registry (g_scope_files g) (fst (validation_format g s)) \<and>
   fst (question_generator (g\<lparr>g_scope_files := reg\<rparr>) s) = fst (question_generator g s) \<and>
   fst (audit_format (g\<lparr>g_scope_files := reg\<rparr>) s) = fst (audit_format g s) \<and>
   fst (scan_format (g\<lparr>g_scope_files := reg\<rparr>) s) = fst (scan_format g s)"
  using validation_format_has_registry[of g s]
  by (simp add: embeds_registry_def question_generator_def audit_format_def scan_format_def)


end
